theory Spec2Isabelle
  imports Main
begin

section \<open>The datasource module of \<^verbatim>\<open>src/store/data-sources/data-sources.ts\<close>\<close>

text \<open>
  The file defines one Vuex module per datasource: a state object, six mutations that
  write it, and ten actions that read it, commit mutations and await the data adapter.
  The embedding keeps that shape. A mutation is a function from the module state to an
  outcome and the state it leaves behind; an action is a function on the \<open>world\<close>: the
  module state together with the two closure variables \<^verbatim>\<open>fetchAbortController\<close> and
  \<^verbatim>\<open>batchAbortController\<close>, the abort flags of the controllers made so far, and the
  list of adapter calls issued. An exception does not roll anything back in JavaScript,
  so a thrown error is returned next to the state as it is at the throw.
\<close>

subsection \<open>Records of the adapter (\<^verbatim>\<open>IOF1DataRecord\<close>)\<close>

text \<open>
  A record is a plain JavaScript object. It is modelled by the list of its own
  properties in enumeration order, each with a primitive value. Reading a property the
  object does not have gives \<^verbatim>\<open>undefined\<close>; writing an existing property keeps its place,
  writing a new one appends it. \<^verbatim>\<open>===\<close> on these values is equality.
\<close>

datatype val = VUndefined | VNull | VBool bool | VNum int | VStr string

type_synonym obj = "(string \<times> val) list"

definition keys :: "obj \<Rightarrow> string list" where
  "keys r = map fst r"

definition obj_get :: "obj \<Rightarrow> string \<Rightarrow> val" where
  "obj_get r k = (case map_of r k of Some v \<Rightarrow> v | None \<Rightarrow> VUndefined)"

fun obj_set :: "obj \<Rightarrow> string \<Rightarrow> val \<Rightarrow> obj" where
  "obj_set [] k v = [(k, v)]"
| "obj_set ((k', v') # r) k v = (if k' = k then (k, v) # r else (k', v') # obj_set r k v)"

definition hasOwnProperty :: "obj \<Rightarrow> string \<Rightarrow> bool" where
  "hasOwnProperty r k = (k \<in> set (keys r))"

text \<open>\<^verbatim>\<open>record.id\<close>\<close>

definition id_of :: "obj \<Rightarrow> val" where
  "id_of r = obj_get r ''id''"

text \<open>
  The object spread \<^verbatim>\<open>{ ...record }\<close>: a fresh object with the own properties of
  \<^verbatim>\<open>record\<close>, and the empty object when \<^verbatim>\<open>record\<close> is \<^verbatim>\<open>null\<close>.
\<close>

definition spread :: "obj option \<Rightarrow> obj" where
  "spread r = (case r of None \<Rightarrow> [] | Some a \<Rightarrow> a)"

text \<open>
  \<^verbatim>\<open>Array.prototype.findIndex\<close>: the index of the first element satisfying the
  predicate, \<open>-1\<close> when there is none.
\<close>

fun findIndexFrom :: "nat \<Rightarrow> ('a \<Rightarrow> bool) \<Rightarrow> 'a list \<Rightarrow> int" where
  "findIndexFrom i P [] = - 1"
| "findIndexFrom i P (x # xs) = (if P x then int i else findIndexFrom (Suc i) P xs)"

definition findIndex :: "('a \<Rightarrow> bool) \<Rightarrow> 'a list \<Rightarrow> int" where
  "findIndex P xs = findIndexFrom 0 P xs"

subsection \<open>State, options, errors\<close>

datatype UpdateMode = Update | Add | Copy | Browse

record DatasourceOptions =
  collectionRecordFields :: "string list option"
  activeRecordFields :: "string list option"
  batchSize :: "int option"

record DatasourceState =
  activeRecord :: "obj option"
  originalRecord :: "obj option"
  records :: "obj list"
  updateMode :: UpdateMode
  pointer :: int
  locked :: bool

text \<open>
  The errors of the module are \<^verbatim>\<open>Error\<close> objects told apart by their message; one
  constructor per message. \<open>TypeError\<close> is what the runtime throws on reading a
  property of \<^verbatim>\<open>null\<close>, \<open>AdapterError\<close> is a rejection of an adapter promise.

  \<^item> \<open>LockedError\<close>: \<^verbatim>\<open>errorLocked()\<close>, "Datasource is locked."
  \<^item> \<open>NotLockedError\<close>: "Datasource is not locked."
  \<^item> \<open>UnexpectedModeError current expected\<close>: \<^verbatim>\<open>errorUnexpectedMode(current, expected)\<close>
  \<^item> \<open>NoActiveRecordError\<close>: "Cannot update record, since none is selected."
  \<^item> \<open>UnknownFieldError\<close>: "Cannot update field, since it's not in the record."
  \<^item> \<open>NoSuchPositionError\<close>: "No such position."
  \<^item> \<open>SaveNoActiveRecordError\<close>: "Save action has no active record!"
  \<^item> \<open>SaveNoOriginalRecordError\<close>: "Update save action has no original record!"
\<close>

datatype error =
    LockedError
  | NotLockedError
  | UnexpectedModeError UpdateMode "UpdateMode option"
  | NoActiveRecordError
  | UnknownFieldError
  | NoSuchPositionError
  | SaveNoActiveRecordError
  | SaveNoOriginalRecordError
  | TypeError
  | AdapterError string

text \<open>
  The adapter calls an action can be suspended on. The last argument of the two fetches
  is the \<^verbatim>\<open>AbortController\<close> whose signal is handed to the adapter.
\<close>

datatype request =
    ReqGetFirst "string list option" "int option" nat
  | ReqGetRecord val "string list option" nat
  | ReqCreate obj
  | ReqUpdate obj obj

text \<open>
  How a piece of code ends: it returns a value, it throws, or it is suspended at an
  \<^verbatim>\<open>await\<close> of an adapter call.
\<close>

datatype 'a step = Return 'a | Throw error | Await request

subsection \<open>Mutations\<close>

definition setCollection :: "obj list \<Rightarrow> DatasourceState \<Rightarrow> unit step \<times> DatasourceState" where
  "setCollection recs s = (Return (), s\<lparr>records := recs\<rparr>)"

text \<open>
  \<^verbatim>\<open>findIndex\<close> with a callback that may throw. The callback is called on the
  elements in order, so it is not called at all on an empty array, and the first call
  that throws ends the search with that error.
\<close>

fun findIndexFrom_throwing :: "nat \<Rightarrow> ('a \<Rightarrow> error + bool) \<Rightarrow> 'a list \<Rightarrow> error + int" where
  "findIndexFrom_throwing i P [] = Inr (- 1)"
| "findIndexFrom_throwing i P (x # xs) =
     (case P x of
        Inl e \<Rightarrow> Inl e
      | Inr found \<Rightarrow> if found then Inr (int i) else findIndexFrom_throwing (Suc i) P xs)"

definition findIndex_throwing :: "('a \<Rightarrow> error + bool) \<Rightarrow> 'a list \<Rightarrow> error + int" where
  "findIndex_throwing P xs = findIndexFrom_throwing 0 P xs"

text \<open>\<^verbatim>\<open>record.id\<close> for a record that may be \<^verbatim>\<open>null\<close>.\<close>

definition record_id :: "obj option \<Rightarrow> error + val" where
  "record_id rcd = (case rcd of None \<Rightarrow> Inl TypeError | Some r \<Rightarrow> Inr (id_of r))"

text \<open>
  \<^verbatim>\<open>setActiveRecord\<close> assigns \<^verbatim>\<open>activeRecord\<close> and, unless \<^verbatim>\<open>preserveOriginal\<close>,
  \<^verbatim>\<open>originalRecord\<close>, and then searches \<^verbatim>\<open>state.records\<close> with the callback
  \<^verbatim>\<open>(x) => x.id === record.id\<close>. \<^verbatim>\<open>record.id\<close> is read inside the callback: with a
  \<^verbatim>\<open>null\<close> record the first call of the callback throws, and on an empty
  \<^verbatim>\<open>state.records\<close> nothing throws and the pointer becomes \<open>-1\<close>.
\<close>

definition setActiveRecord :: "obj option \<Rightarrow> bool \<Rightarrow> DatasourceState \<Rightarrow> unit step \<times> DatasourceState" where
  "setActiveRecord rcd preserveOriginal s =
     (if locked s then (Throw LockedError, s)
      else
        let s1 = s\<lparr>activeRecord := rcd\<rparr>;
            s2 = (if \<not> preserveOriginal then s1\<lparr>originalRecord := Some (spread rcd)\<rparr> else s1)
        in case findIndex_throwing
                  (\<lambda>x. case record_id rcd of
                         Inl e \<Rightarrow> Inl e
                       | Inr v \<Rightarrow> Inr (id_of x = v))
                  (records s2) of
             Inl e \<Rightarrow> (Throw e, s2)
           | Inr position \<Rightarrow> (Return (), s2\<lparr>pointer := position\<rparr>))"

definition setUpdateMode :: "UpdateMode \<Rightarrow> DatasourceState \<Rightarrow> unit step \<times> DatasourceState" where
  "setUpdateMode m s =
     (if locked s then (Throw LockedError, s) else (Return (), s\<lparr>updateMode := m\<rparr>))"

definition update :: "string \<Rightarrow> val \<Rightarrow> DatasourceState \<Rightarrow> unit step \<times> DatasourceState" where
  "update field v s =
     (if locked s then (Throw LockedError, s)
      else if updateMode s = Browse then (Throw (UnexpectedModeError (updateMode s) (Some Browse)), s)
      else case activeRecord s of
             None \<Rightarrow> (Throw NoActiveRecordError, s)
           | Some a \<Rightarrow>
               if \<not> hasOwnProperty a field then (Throw UnknownFieldError, s)
               else (Return (), s\<lparr>activeRecord := Some (obj_set a field v)\<rparr>))"

definition lock :: "DatasourceState \<Rightarrow> unit step \<times> DatasourceState" where
  "lock s = (if locked s then (Throw LockedError, s) else (Return (), s\<lparr>locked := True\<rparr>))"

definition unlock :: "DatasourceState \<Rightarrow> unit step \<times> DatasourceState" where
  "unlock s = (if locked s then (Throw NotLockedError, s) else (Return (), s\<lparr>locked := False\<rparr>))"

subsection \<open>The closure of \<^verbatim>\<open>createDatasource\<close>\<close>

text \<open>
  An \<^verbatim>\<open>AbortController\<close> is an object with identity and one mutable flag,
  \<^verbatim>\<open>signal.aborted\<close>. The controllers made so far are the positions of the list
  \<open>signals\<close>; a controller is its position. \<open>calls\<close> is the list of adapter calls
  issued so far, oldest first.
\<close>

record world =
  state :: DatasourceState
  fetchAbortController :: "nat option"
  batchAbortController :: "nat option"
  signals :: "bool list"
  calls :: "request list"

definition defaultBatchSize :: int where
  "defaultBatchSize = 50"

text \<open>
  \<^verbatim>\<open>createDatasource\<close> fills in the default batch size and registers the module with
  its initial state. The store and the generated module name are not modelled.
\<close>

definition createDatasource :: "DatasourceOptions \<Rightarrow> DatasourceOptions \<times> world" where
  "createDatasource options =
     ((if batchSize options = None then options\<lparr>batchSize := Some defaultBatchSize\<rparr> else options),
      \<lparr>state = \<lparr>activeRecord = None, originalRecord = None, records = [],
                updateMode = Browse, pointer = - 1, locked = False\<rparr>,
       fetchAbortController = None, batchAbortController = None,
       signals = [], calls = []\<rparr>)"

definition newAbortController :: "world \<Rightarrow> nat \<times> world" where
  "newAbortController w = (length (signals w), w\<lparr>signals := signals w @ [False]\<rparr>)"

definition abort :: "nat \<Rightarrow> world \<Rightarrow> world" where
  "abort c w = w\<lparr>signals := (signals w)[c := True]\<rparr>"

definition aborted :: "world \<Rightarrow> nat \<Rightarrow> bool" where
  "aborted w c = (c < length (signals w) \<and> signals w ! c)"

text \<open>\<^verbatim>\<open>if (controller) controller.abort()\<close>\<close>

definition abortIfSet :: "nat option \<Rightarrow> world \<Rightarrow> world" where
  "abortIfSet c w = (case c of None \<Rightarrow> w | Some k \<Rightarrow> abort k w)"

text \<open>\<^verbatim>\<open>commit(mutation, payload)\<close> runs a mutation on the module state.\<close>

definition commit :: "(DatasourceState \<Rightarrow> unit step \<times> DatasourceState) \<Rightarrow> world \<Rightarrow> unit step \<times> world" where
  "commit m w = (case m (state w) of (r, s') \<Rightarrow> (r, w\<lparr>state := s'\<rparr>))"

text \<open>
  Calling an adapter method and awaiting its promise: the call is recorded and the
  action is suspended. What the action does when the promise settles is a function of
  its own below, taking the adapter's answer (\<open>Inl\<close> a rejection, \<open>Inr\<close> the value).
\<close>

definition adapter_call :: "request \<Rightarrow> world \<Rightarrow> 'a step \<times> world" where
  "adapter_call q w = (Await q, w\<lparr>calls := calls w @ [q]\<rparr>)"

text \<open>Statement sequencing: the rest runs only when the first statement returned.\<close>

definition and_then :: "unit step \<times> world \<Rightarrow> (world \<Rightarrow> 'a step \<times> world) \<Rightarrow> 'a step \<times> world" where
  "and_then r k =
     (case r of
        (Return _, w) \<Rightarrow> k w
      | (Throw e, w) \<Rightarrow> (Throw e, w)
      | (Await q, w) \<Rightarrow> (Await q, w))"

text \<open>
  \<^verbatim>\<open>try { body } finally { cleanup }\<close> once the body has completed: the cleanup runs
  on the state the body left, and an error thrown by the cleanup replaces the body's
  completion.
\<close>

definition try_finally :: "'a step \<times> world \<Rightarrow> (world \<Rightarrow> unit step \<times> world) \<Rightarrow> 'a step \<times> world" where
  "try_finally body cleanup =
     (case body of (r, w) \<Rightarrow>
        (case cleanup w of
           (Throw e, w') \<Rightarrow> (Throw e, w')
         | (_, w') \<Rightarrow> (r, w')))"

text \<open>An action of type \<^verbatim>\<open>void\<close> that ends with another action drops its value.\<close>

definition void_result :: "'a step \<times> world \<Rightarrow> unit step \<times> world" where
  "void_result r =
     (case r of
        (Return _, w) \<Rightarrow> (Return (), w)
      | (Throw e, w) \<Rightarrow> (Throw e, w)
      | (Await q, w) \<Rightarrow> (Await q, w))"

subsection \<open>Actions: loading and positioning\<close>

text \<open>
  \<^verbatim>\<open>init\<close> up to its first \<^verbatim>\<open>await\<close> (the call of \<^verbatim>\<open>adapter.getFirst\<close>). The
  controller made here is the local \<^verbatim>\<open>localBatchAbortController\<close>; it is the third
  argument of the request the action is suspended on.
\<close>

definition init :: "DatasourceOptions \<Rightarrow> world \<Rightarrow> unit step \<times> world" where
  "init options w =
     (if locked (state w) then (Throw LockedError, w)
      else
        let w1 = abortIfSet (batchAbortController w) w;
            w2 = abortIfSet (fetchAbortController w1) w1;
            (localBatch, w3) = newAbortController w2;
            w4 = w3\<lparr>batchAbortController := Some localBatch\<rparr>
        in adapter_call
             (ReqGetFirst (collectionRecordFields options) (batchSize options) localBatch) w4)"

text \<open>
  The three commits that end \<^verbatim>\<open>init\<close>: the collection always, the active record
  when the local fetch controller has not been aborted, then the mode.
\<close>

definition init_commits :: "nat \<Rightarrow> obj list \<Rightarrow> obj option \<Rightarrow> world \<Rightarrow> unit step \<times> world" where
  "init_commits localFetch recs rcd w =
     and_then (commit (setCollection recs) w) (\<lambda>w1.
     and_then (if \<not> aborted w1 localFetch then commit (setActiveRecord rcd False) w1
               else (Return (), w1)) (\<lambda>w2.
     commit (setUpdateMode Browse) w2))"

text \<open>
  \<^verbatim>\<open>init\<close> from the moment \<^verbatim>\<open>adapter.getFirst\<close> settles. With an empty batch no
  record is fetched and the commits follow at once, with \<^verbatim>\<open>record\<close> still \<^verbatim>\<open>null\<close>.
\<close>

definition init_getFirst_settled ::
    "DatasourceOptions \<Rightarrow> nat \<Rightarrow> error + obj list \<Rightarrow> world \<Rightarrow> unit step \<times> world" where
  "init_getFirst_settled options localBatch answer w =
     (case answer of
        Inl e \<Rightarrow> (Throw e, w)
      | Inr recs \<Rightarrow>
          if aborted w localBatch then (Return (), w)
          else
            let w1 = w\<lparr>batchAbortController := None\<rparr>;
                (localFetch, w2) = newAbortController w1;
                w3 = w2\<lparr>fetchAbortController := Some localFetch\<rparr>
            in if length recs > 0
               then adapter_call
                      (ReqGetRecord (id_of (hd recs)) (activeRecordFields options) localFetch) w3
               else init_commits localFetch recs None w3)"

text \<open>
  \<^verbatim>\<open>init\<close> from the moment \<^verbatim>\<open>adapter.getRecord\<close> settles. \<^verbatim>\<open>recs\<close> and
  \<^verbatim>\<open>localFetch\<close> are the locals the suspended action still holds.
\<close>

definition init_getRecord_settled ::
    "nat \<Rightarrow> obj list \<Rightarrow> error + obj option \<Rightarrow> world \<Rightarrow> unit step \<times> world" where
  "init_getRecord_settled localFetch recs answer w =
     (case answer of
        Inl e \<Rightarrow> (Throw e, w)
      | Inr firstRecord \<Rightarrow> init_commits localFetch recs firstRecord w)"

text \<open>\<^verbatim>\<open>repositionById\<close> up to its \<^verbatim>\<open>await\<close> of \<^verbatim>\<open>adapter.getRecord\<close>.\<close>

definition repositionById :: "DatasourceOptions \<Rightarrow> val \<Rightarrow> world \<Rightarrow> bool step \<times> world" where
  "repositionById options ident w =
     (if locked (state w) then (Throw LockedError, w)
      else if updateMode (state w) \<noteq> Browse
        then (Throw (UnexpectedModeError (updateMode (state w)) (Some Browse)), w)
      else
        let w1 = abortIfSet (fetchAbortController w) w;
            (localFetch, w2) = newAbortController w1;
            w3 = w2\<lparr>fetchAbortController := Some localFetch\<rparr>
        in adapter_call (ReqGetRecord ident (activeRecordFields options) localFetch) w3)"

text \<open>
  \<^verbatim>\<open>repositionById\<close> from the moment \<^verbatim>\<open>adapter.getRecord\<close> settles. The test reads
  \<^verbatim>\<open>fetchAbortController.signal.aborted\<close>: the variable of the closure, which holds
  the controller of the latest fetch, and not the local \<^verbatim>\<open>localFetchAbortController\<close>
  of this call, which is therefore no argument here. Reading \<^verbatim>\<open>.signal\<close> of a
  \<^verbatim>\<open>null\<close> variable would throw.
\<close>

definition repositionById_settled :: "error + obj option \<Rightarrow> world \<Rightarrow> bool step \<times> world" where
  "repositionById_settled answer w =
     (case answer of
        Inl e \<Rightarrow> (Throw e, w)
      | Inr newRecord \<Rightarrow>
          (case fetchAbortController w of
             None \<Rightarrow> (Throw TypeError, w)
           | Some c \<Rightarrow>
               if \<not> aborted w c
               then and_then (commit (setActiveRecord newRecord False) w) (\<lambda>w1. (Return True, w1))
               else (Return False, w)))"

text \<open>
  \<^verbatim>\<open>reposition\<close>: \<^verbatim>\<open>state.records[pos]\<close> is \<^verbatim>\<open>undefined\<close> outside the array. The
  action then continues as \<^verbatim>\<open>repositionById\<close> and returns its result.
\<close>

definition reposition :: "DatasourceOptions \<Rightarrow> int \<Rightarrow> world \<Rightarrow> bool step \<times> world" where
  "reposition options pos w =
     (if locked (state w) then (Throw LockedError, w)
      else if updateMode (state w) \<noteq> Browse
        then (Throw (UnexpectedModeError (updateMode (state w)) (Some Browse)), w)
      else if 0 \<le> pos \<and> pos < int (length (records (state w)))
        then repositionById options (id_of (records (state w) ! nat pos)) w
      else (Throw NoSuchPositionError, w))"

definition prev :: "DatasourceOptions \<Rightarrow> world \<Rightarrow> unit step \<times> world" where
  "prev options w =
     (if pointer (state w) > 0
      then void_result (reposition options (pointer (state w) - 1) w)
      else (Return (), w))"

definition next_action :: "DatasourceOptions \<Rightarrow> world \<Rightarrow> unit step \<times> world" where
  "next_action options w =
     (if pointer (state w) + 1 < int (length (records (state w)))
      then void_result (reposition options (pointer (state w) + 1) w)
      else (Return (), w))"

subsection \<open>Actions: state transitions\<close>

text \<open>
  \<^verbatim>\<open>edit\<close>: the statement \<^verbatim>\<open>if (!state.originalRecord) error(...)\<close> builds an
  \<^verbatim>\<open>Error\<close> object and drops it; there is no \<^verbatim>\<open>throw\<close>, so it has no effect and the
  commit follows whether or not there is an original record.
\<close>

definition edit :: "world \<Rightarrow> unit step \<times> world" where
  "edit w =
     (if locked (state w) then (Throw LockedError, w)
      else if updateMode (state w) \<noteq> Browse
        then (Throw (UnexpectedModeError (updateMode (state w)) (Some Browse)), w)
      else commit (setUpdateMode Update) w)"

definition add :: "world \<Rightarrow> unit step \<times> world" where
  "add w =
     (if locked (state w) then (Throw LockedError, w)
      else if updateMode (state w) \<noteq> Browse
        then (Throw (UnexpectedModeError (updateMode (state w)) (Some Browse)), w)
      else
        and_then (commit (setUpdateMode Add) w) (\<lambda>w1.
          let rcd = (case activeRecord (state w1) of
                       Some a \<Rightarrow> fold (\<lambda>key r. obj_set r key VNull) (keys a) []
                     | None \<Rightarrow> [])
          in commit (setActiveRecord (Some rcd) True) w1))"

definition copy :: "world \<Rightarrow> unit step \<times> world" where
  "copy w =
     (if locked (state w) then (Throw LockedError, w)
      else if updateMode (state w) \<noteq> Browse
        then (Throw (UnexpectedModeError (updateMode (state w)) (Some Browse)), w)
      else
        and_then (commit (setUpdateMode Copy) w) (\<lambda>w1.
          let rcd = (case activeRecord (state w1) of
                       Some a \<Rightarrow> spread (Some a)
                     | None \<Rightarrow> [])
          in commit (setActiveRecord (Some rcd) True) w1))"

text \<open>
  \<^verbatim>\<open>save\<close> from the moment the adapter's \<^verbatim>\<open>create\<close> or \<^verbatim>\<open>update\<close> settles: the
  \<^verbatim>\<open>finally\<close> block commits \<^verbatim>\<open>unlock\<close>; after a successful call the new record is
  committed and the action continues as \<^verbatim>\<open>init\<close>.
\<close>

definition save_settled :: "DatasourceOptions \<Rightarrow> error + obj option \<Rightarrow> world \<Rightarrow> unit step \<times> world" where
  "save_settled options answer w =
     (case answer of
        Inl e \<Rightarrow> try_finally (Throw e, w) (commit unlock)
      | Inr newRecord \<Rightarrow>
          and_then (try_finally (Return (), w) (commit unlock)) (\<lambda>w1.
          and_then (commit (setActiveRecord newRecord False) w1) (\<lambda>w2.
          init options w2)))"

text \<open>
  \<^verbatim>\<open>save\<close> up to its \<^verbatim>\<open>await\<close>. The \<^verbatim>\<open>lock\<close> commit and the \<^verbatim>\<open>switch\<close> are inside
  the \<^verbatim>\<open>try\<close>, so an error thrown there runs the \<^verbatim>\<open>finally\<close> block at once. The
  \<^verbatim>\<open>switch\<close> has no case for \<^verbatim>\<open>Browse\<close>: there \<^verbatim>\<open>newRecord\<close> stays \<^verbatim>\<open>null\<close> and
  the action goes on without a call. The \<^verbatim>\<open>lock\<close> commit writes \<^verbatim>\<open>locked\<close> only, so
  the \<^verbatim>\<open>state.activeRecord\<close> handed to the adapter is the one tested before it.
\<close>

definition save :: "DatasourceOptions \<Rightarrow> world \<Rightarrow> unit step \<times> world" where
  "save options w =
     (if locked (state w) then (Throw LockedError, w)
      else if updateMode (state w) = Browse
        then (Throw (UnexpectedModeError (updateMode (state w)) None), w)
      else case activeRecord (state w) of
             None \<Rightarrow> (Throw SaveNoActiveRecordError, w)
           | Some a \<Rightarrow>
               (case commit lock w of
                  (Return _, w1) \<Rightarrow>
                    (case updateMode (state w1) of
                       Add \<Rightarrow> adapter_call (ReqCreate a) w1
                     | Copy \<Rightarrow> adapter_call (ReqCreate a) w1
                     | Update \<Rightarrow>
                         (case originalRecord (state w1) of
                            None \<Rightarrow> try_finally (Throw SaveNoOriginalRecordError, w1) (commit unlock)
                          | Some original \<Rightarrow> adapter_call (ReqUpdate a original) w1)
                     | Browse \<Rightarrow> save_settled options (Inr None) w1)
                | thrown \<Rightarrow> try_finally thrown (commit unlock)))"

definition cancel :: "world \<Rightarrow> unit step \<times> world" where
  "cancel w =
     (if locked (state w) then (Throw LockedError, w)
      else if updateMode (state w) = Browse
        then (Throw (UnexpectedModeError (updateMode (state w)) None), w)
      else
        and_then (commit (setActiveRecord (originalRecord (state w)) False) w) (\<lambda>w1.
        commit (setUpdateMode Browse) w1))"

subsection \<open>Properties and scenarios\<close>

text \<open>
  The pointer invariant of the data model: the pointer is
  \<^verbatim>\<open>records.findIndex(r => r.id == activeRecord.id)\<close>, and \<open>-1\<close> when there is no
  active record.
\<close>

definition pointer_invariant :: "DatasourceState \<Rightarrow> bool" where
  "pointer_invariant s =
     (case activeRecord s of
        None \<Rightarrow> pointer s = - 1
      | Some a \<Rightarrow> pointer s = findIndex (\<lambda>x. id_of x = id_of a) (records s))"

text \<open>
  A caller committing field updates one after the other, going on after an update that
  threw.
\<close>

definition apply_updates :: "(string \<times> val) list \<Rightarrow> world \<Rightarrow> world" where
  "apply_updates fvs w = fold (\<lambda>(field, v) w'. snd (commit (update field v) w')) fvs w"

text \<open>
  A session used in the examples: a datasource is created with default options, and
  \<^verbatim>\<open>init\<close> loads a batch of two records and the first of them as the active record.
  Each world below is reached from the fresh one by the calls written in its definition.
\<close>

definition fresh_world :: world where
  "fresh_world =
     snd (createDatasource
       \<lparr>collectionRecordFields = None, activeRecordFields = None, batchSize = None\<rparr>)"

definition example_options :: DatasourceOptions where
  "example_options =
     fst (createDatasource
       \<lparr>collectionRecordFields = None, activeRecordFields = None, batchSize = None\<rparr>)"

definition rec1 :: obj where
  "rec1 = [(''id'', VNum 1), (''name'', VStr ''a'')]"

definition rec2 :: obj where
  "rec2 = [(''id'', VNum 2), (''name'', VStr ''b'')]"

text \<open>\<^verbatim>\<open>init()\<close> was called; \<^verbatim>\<open>getFirst\<close> is pending on controller 0.\<close>

definition batch_pending_world :: world where
  "batch_pending_world = snd (init example_options fresh_world)"


text \<open>The batch arrived; \<^verbatim>\<open>getRecord(1)\<close> is pending on controller 1.\<close>

definition record_pending_world :: world where
  "record_pending_world =
     snd (init_getFirst_settled example_options 0 (Inr [rec1, rec2]) batch_pending_world)"

text \<open>The first record arrived: \<^verbatim>\<open>init\<close> has completed.\<close>

definition loaded_world :: world where
  "loaded_world =
     snd (init_getRecord_settled 1 [rec1, rec2] (Inr (Some rec1)) record_pending_world)"

text \<open>\<^verbatim>\<open>repositionById(2)\<close> was called; \<^verbatim>\<open>getRecord(2)\<close> is pending on controller 2.\<close>

definition reposition_pending_world :: world where
  "reposition_pending_world = snd (repositionById example_options (VNum 2) loaded_world)"

text \<open>\<^verbatim>\<open>edit()\<close>, then \<^verbatim>\<open>update('name', 'x')\<close>.\<close>

definition editing_world :: world where
  "editing_world = snd (commit (update ''name'' (VStr ''x'')) (snd (edit loaded_world)))"

text \<open>\<^verbatim>\<open>save()\<close> was called; \<^verbatim>\<open>adapter.update\<close> is pending.\<close>

definition saving_world :: world where
  "saving_world = snd (save example_options editing_world)"

text \<open>\<^verbatim>\<open>add()\<close> on the fresh session, which has neither active nor original record.\<close>

definition adding_world :: world where
  "adding_world = snd (add fresh_world)"

text \<open>
  \<^verbatim>\<open>repositionById(2)\<close> on the fresh session, which has no records;
  \<^verbatim>\<open>getRecord(2)\<close> is pending on controller 0.
\<close>

definition empty_reposition_pending_world :: world where
  "empty_reposition_pending_world = snd (repositionById example_options (VNum 2) fresh_world)"


text \<open>
  While the first record of \<^verbatim>\<open>init\<close> was pending, \<^verbatim>\<open>repositionById(2)\<close> was called;
  then the first record arrived. \<^verbatim>\<open>init\<close> has completed with the batch committed and
  no active record; \<^verbatim>\<open>getRecord(2)\<close> is still pending.
\<close>

definition batch_only_world :: world where
  "batch_only_world =
     snd (init_getRecord_settled 1 [rec1, rec2] (Inr (Some rec1))
       (snd (repositionById example_options (VNum 2) record_pending_world)))"

text \<open>\<^verbatim>\<open>edit()\<close> on that session: Update mode with records and no original record.\<close>

definition batch_only_editing_world :: world where
  "batch_only_editing_world = snd (edit batch_only_world)"

section \<open>Auxiliary facts\<close>

text \<open>
  The search of \<^verbatim>\<open>setActiveRecord\<close>, by cases: with a record the callback never
  throws and the search is the plain \<open>findIndex\<close>; without one it throws at the first
  element, if there is one.
\<close>

lemma findIndexFrom_throwing_pure:
  "findIndexFrom_throwing i (\<lambda>x. Inr (P x)) xs = Inr (findIndexFrom i P xs)"
  by (induction xs arbitrary: i) auto

lemma findIndexFrom_throwing_error:
  "findIndexFrom_throwing i (\<lambda>x. Inl e) xs = (if xs = [] then Inr (- 1) else Inl e)"
  by (cases xs) auto

lemma setActiveRecord_eq:
  "setActiveRecord rcd preserveOriginal s =
     (if locked s then (Throw LockedError, s)
      else
        let s1 = s\<lparr>activeRecord := rcd\<rparr>;
            s2 = (if \<not> preserveOriginal then s1\<lparr>originalRecord := Some (spread rcd)\<rparr> else s1)
        in case rcd of
             None \<Rightarrow>
               if records s2 = [] then (Return (), s2\<lparr>pointer := - 1\<rparr>)
               else (Throw TypeError, s2)
           | Some r \<Rightarrow>
               (Return (), s2\<lparr>pointer := findIndex (\<lambda>x. id_of x = id_of r) (records s2)\<rparr>))"
  by (cases rcd)
    (simp_all add: setActiveRecord_def record_id_def findIndex_throwing_def findIndex_def
      findIndexFrom_throwing_pure findIndexFrom_throwing_error Let_def)

lemmas model_defs =
  setCollection_def setActiveRecord_eq setUpdateMode_def update_def lock_def unlock_def
  createDatasource_def defaultBatchSize_def newAbortController_def abort_def aborted_def
  abortIfSet_def commit_def adapter_call_def and_then_def try_finally_def void_result_def
  init_def init_commits_def init_getFirst_settled_def init_getRecord_settled_def
  repositionById_def repositionById_settled_def reposition_def prev_def next_action_def
  edit_def add_def copy_def save_def save_settled_def cancel_def
  keys_def obj_get_def hasOwnProperty_def id_of_def spread_def findIndex_def Let_def

lemmas example_defs = fresh_world_def example_options_def rec1_def rec2_def

subsection \<open>The example worlds, evaluated\<close>

lemma fresh_state_eq:
  "state fresh_world =
     \<lparr>activeRecord = None, originalRecord = None, records = [],
      updateMode = Browse, pointer = - 1, locked = False\<rparr>"
  by (simp add: model_defs example_defs)

lemma batch_pending_world_eq:
  "batch_pending_world =
     \<lparr>state = state fresh_world, fetchAbortController = None, batchAbortController = Some 0,
      signals = [False], calls = [ReqGetFirst None (Some 50) 0]\<rparr>"
  by (simp add: batch_pending_world_def model_defs example_defs)


lemma record_pending_world_eq:
  "record_pending_world =
     \<lparr>state = state fresh_world, fetchAbortController = Some 1, batchAbortController = None,
      signals = [False, False],
      calls = [ReqGetFirst None (Some 50) 0, ReqGetRecord (VNum 1) None 1]\<rparr>"
  by (simp add: record_pending_world_def batch_pending_world_eq model_defs example_defs)

lemma loaded_world_eq:
  "loaded_world =
     \<lparr>state = \<lparr>activeRecord = Some rec1, originalRecord = Some rec1, records = [rec1, rec2],
               updateMode = Browse, pointer = 0, locked = False\<rparr>,
      fetchAbortController = Some 1, batchAbortController = None,
      signals = [False, False],
      calls = [ReqGetFirst None (Some 50) 0, ReqGetRecord (VNum 1) None 1]\<rparr>"
  by (simp add: loaded_world_def record_pending_world_eq fresh_state_eq model_defs rec1_def rec2_def)

lemma reposition_pending_world_eq:
  "reposition_pending_world =
     loaded_world\<lparr>fetchAbortController := Some 2, signals := [False, True, False],
       calls := calls loaded_world @ [ReqGetRecord (VNum 2) None 2]\<rparr>"
  by (simp add: reposition_pending_world_def loaded_world_eq model_defs example_defs)

lemma editing_world_eq:
  "editing_world =
     \<lparr>state = \<lparr>activeRecord = Some [(''id'', VNum 1), (''name'', VStr ''x'')],
               originalRecord = Some rec1, records = [rec1, rec2],
               updateMode = Update, pointer = 0, locked = False\<rparr>,
      fetchAbortController = Some 1, batchAbortController = None,
      signals = [False, False],
      calls = [ReqGetFirst None (Some 50) 0, ReqGetRecord (VNum 1) None 1]\<rparr>"
  by (simp add: editing_world_def loaded_world_eq model_defs example_defs)

lemma save_editing_world:
  "save example_options editing_world =
     (Await (ReqUpdate [(''id'', VNum 1), (''name'', VStr ''x'')] rec1),
      editing_world\<lparr>state := (state editing_world)\<lparr>locked := True\<rparr>,
        calls := calls editing_world @ [ReqUpdate [(''id'', VNum 1), (''name'', VStr ''x'')] rec1]\<rparr>)"
  by (simp add: editing_world_eq model_defs example_defs)

lemma saving_world_eq:
  "saving_world =
     \<lparr>state = \<lparr>activeRecord = Some [(''id'', VNum 1), (''name'', VStr ''x'')],
               originalRecord = Some rec1, records = [rec1, rec2],
               updateMode = Update, pointer = 0, locked = True\<rparr>,
      fetchAbortController = Some 1, batchAbortController = None,
      signals = [False, False],
      calls = [ReqGetFirst None (Some 50) 0, ReqGetRecord (VNum 1) None 1,
               ReqUpdate [(''id'', VNum 1), (''name'', VStr ''x'')] rec1]\<rparr>"
  by (simp add: saving_world_def save_editing_world) (simp add: editing_world_eq)

lemma adding_world_eq:
  "adding_world =
     fresh_world\<lparr>state := (state fresh_world)\<lparr>updateMode := Add, activeRecord := Some []\<rparr>\<rparr>"
  by (simp add: adding_world_def model_defs example_defs)

lemma empty_reposition_pending_world_eq:
  "empty_reposition_pending_world =
     \<lparr>state = state fresh_world, fetchAbortController = Some 0, batchAbortController = None,
      signals = [False], calls = [ReqGetRecord (VNum 2) None 0]\<rparr>"
  by (simp add: empty_reposition_pending_world_def model_defs example_defs)


lemma batch_only_world_eq:
  "batch_only_world =
     \<lparr>state = \<lparr>activeRecord = None, originalRecord = None, records = [rec1, rec2],
               updateMode = Browse, pointer = - 1, locked = False\<rparr>,
      fetchAbortController = Some 2, batchAbortController = None,
      signals = [False, True, False],
      calls = [ReqGetFirst None (Some 50) 0, ReqGetRecord (VNum 1) None 1,
               ReqGetRecord (VNum 2) None 2]\<rparr>"
  by (simp add: batch_only_world_def record_pending_world_eq fresh_state_eq model_defs
      example_options_def rec1_def rec2_def)

lemma batch_only_editing_world_eq:
  "batch_only_editing_world =
     batch_only_world\<lparr>state := (state batch_only_world)\<lparr>updateMode := Update\<rparr>\<rparr>"
  by (simp add: batch_only_editing_world_def batch_only_world_eq model_defs)

subsection \<open>\<open>findIndex\<close> and the property lists\<close>

lemma findIndexFrom_none: "(findIndexFrom i P xs = - 1) = (\<forall>x\<in>set xs. \<not> P x)"
  by (induction xs arbitrary: i) auto


lemma findIndex_none: "(findIndex P xs = - 1) = (\<forall>x\<in>set xs. \<not> P x)"
  by (simp add: findIndex_def findIndexFrom_none)




lemma map_fst_obj_set:
  "map fst (obj_set r k v) = (if k \<in> fst ` set r then map fst r else map fst r @ [k])"
  by (induction r) (force simp: image_iff)+

lemma keys_obj_set: "set (keys (obj_set r k v)) = insert k (set (keys r))"
  by (auto simp: keys_def map_fst_obj_set)

lemma set_obj_set: "set (obj_set r k v) \<subseteq> insert (k, v) (set r)"
  by (induction r) (auto split: if_splits)

lemma values_obj_set: "snd ` set (obj_set r k v) \<subseteq> insert v (snd ` set r)"
  using set_obj_set [of r k v] by auto

lemma obj_set_append_new: "k \<notin> set (keys r) \<Longrightarrow> obj_set r k v = r @ [(k, v)]"
  by (induction r) (auto simp: keys_def)

text \<open>The loop of \<^verbatim>\<open>add\<close> that clears every field.\<close>

lemma keys_fold_clear:
  "set (keys (fold (\<lambda>key r. obj_set r key VNull) ks r0)) = set (keys r0) \<union> set ks"
  by (induction ks arbitrary: r0) (auto simp: keys_obj_set)

lemma values_fold_clear:
  "snd ` set r0 \<subseteq> {VNull} \<Longrightarrow>
   snd ` set (fold (\<lambda>key r. obj_set r key VNull) ks r0) \<subseteq> {VNull}"
proof (induction ks arbitrary: r0)
  case Nil
  then show ?case by simp
next
  case (Cons k ks)
  have "snd ` set (obj_set r0 k VNull) \<subseteq> {VNull}"
    using values_obj_set [of r0 k VNull] Cons.prems by auto
  then show ?case using Cons.IH by simp
qed

lemma fold_clear_distinct:
  "distinct (keys r0 @ ks) \<Longrightarrow>
   fold (\<lambda>key r. obj_set r key VNull) ks r0 = r0 @ map (\<lambda>k. (k, VNull)) ks"
proof (induction ks arbitrary: r0)
  case Nil
  then show ?case by simp
next
  case (Cons k ks)
  from Cons.prems have new: "k \<notin> set (keys r0)" by auto
  have step: "obj_set r0 k VNull = r0 @ [(k, VNull)]" by (rule obj_set_append_new [OF new])
  from Cons.prems have "distinct (keys (r0 @ [(k, VNull)]) @ ks)" by (auto simp: keys_def)
  from Cons.IH [OF this] show ?case by (simp add: step)
qed

lemma obj_get_cleared:
  assumes "snd ` set r \<subseteq> {VNull}"
  shows "obj_get r k = (if k \<in> set (keys r) then VNull else VUndefined)"
proof (cases "map_of r k")
  case None
  then have "k \<notin> fst ` set r" by (simp add: map_of_eq_None_iff)
  with None show ?thesis by (simp add: obj_get_def keys_def)
next
  case (Some v)
  then have "(k, v) \<in> set r" by (rule map_of_SomeD)
  then have "k \<in> set (keys r)" and "v \<in> snd ` set r" by (force simp: keys_def)+
  with assms Some show ?thesis by (auto simp: obj_get_def)
qed

subsection \<open>Sequencing\<close>







lemma aborted_state [simp]: "aborted (w\<lparr>state := s\<rparr>) c = aborted w c"
  by (simp add: aborted_def)

subsection \<open>Segments that never return\<close>






text \<open>
  Once \<^verbatim>\<open>save\<close> is suspended the session is locked, and on a locked session the
  rest of \<^verbatim>\<open>save\<close> throws the not-locked error whatever the adapter answers.
\<close>

lemma save_settled_while_locked:
  "locked (state w) \<Longrightarrow> save_settled options answer w = (Throw NotLockedError, w)"
  by (simp add: save_settled_def try_finally_def commit_def unlock_def and_then_def
      split: sum.splits)

lemma save_suspended_locked:
  "save options w = (Await q, w') \<Longrightarrow> locked (state w')"
  by (auto simp: save_def commit_def lock_def adapter_call_def try_finally_def unlock_def
        save_settled_while_locked
      split: if_splits option.splits UpdateMode.splits)



subsection \<open>The pointer invariant, operation by operation\<close>

lemma pointer_invariant_updateMode [simp]:
  "pointer_invariant (s\<lparr>updateMode := m\<rparr>) = pointer_invariant s"
  by (simp add: pointer_invariant_def split: option.splits)


















subsection \<open>What the synchronous actions compute on an unlocked session\<close>

lemma edit_result:
  "\<not> locked (state w) \<Longrightarrow>
   edit w = (if updateMode (state w) = Browse
             then (Return (), w\<lparr>state := (state w)\<lparr>updateMode := Update\<rparr>\<rparr>)
             else (Throw (UnexpectedModeError (updateMode (state w)) (Some Browse)), w))"
  by (simp add: edit_def commit_def setUpdateMode_def)

lemma add_result:
  assumes "\<not> locked (state w)" and "updateMode (state w) = Browse"
  shows "add w =
     (let rcd = (case activeRecord (state w) of
                   Some a \<Rightarrow> fold (\<lambda>key r. obj_set r key VNull) (keys a) []
                 | None \<Rightarrow> [])
      in (Return (), w\<lparr>state := (state w)\<lparr>updateMode := Add, activeRecord := Some rcd,
            pointer := findIndex (\<lambda>x. id_of x = id_of rcd) (records (state w))\<rparr>\<rparr>))"
  using assms
  by (simp add: add_def commit_def setUpdateMode_def setActiveRecord_eq and_then_def Let_def)

lemma cancel_result:
  assumes "\<not> locked (state w)" and "updateMode (state w) \<noteq> Browse"
    and "originalRecord (state w) = Some orig"
  shows "cancel w = (Return (), w\<lparr>state := (state w)\<lparr>activeRecord := Some orig,
           originalRecord := Some orig,
           pointer := findIndex (\<lambda>x. id_of x = id_of orig) (records (state w)),
           updateMode := Browse\<rparr>\<rparr>)"
  using assms
  by (simp add: cancel_def commit_def setActiveRecord_eq setUpdateMode_def and_then_def
      spread_def Let_def)

lemma commit_update_keeps:
  assumes "commit (update field v) w = (r, w')"
  shows "originalRecord (state w') = originalRecord (state w)"
    and "locked (state w') = locked (state w)"
    and "updateMode (state w') = updateMode (state w)"
    and "records (state w') = records (state w)"
    and "pointer (state w') = pointer (state w)"
    and "calls w' = calls w"
  using assms
  by (auto simp: commit_def update_def split: prod.splits if_splits option.splits)

lemma apply_updates_keeps:
  "originalRecord (state (apply_updates fvs w)) = originalRecord (state w)
   \<and> locked (state (apply_updates fvs w)) = locked (state w)
   \<and> updateMode (state (apply_updates fvs w)) = updateMode (state w)
   \<and> calls (apply_updates fvs w) = calls w"
proof (induction fvs arbitrary: w)
  case Nil
  then show ?case by (simp add: apply_updates_def)
next
  case (Cons fv fvs)
  obtain field v where fv: "fv = (field, v)" by (cases fv)
  obtain r w1 where step: "commit (update field v) w = (r, w1)"
    by (cases "commit (update field v) w")
  have unfold: "apply_updates (fv # fvs) w = apply_updates fvs w1"
    by (simp add: apply_updates_def fv step)
  from Cons.IH [of w1] commit_update_keeps [OF step] show ?case
    by (simp add: unfold)
qed

section \<open>The claims\<close>

subsection \<open>C1: a superseded \<^verbatim>\<open>repositionById\<close>\<close>

text \<open>
  Claim C1 says that when \<^verbatim>\<open>repositionById(A)\<close> is followed by \<^verbatim>\<open>repositionById(B)\<close>
  before A's fetch resolves, and A's fetch resolves after B's, the result of A is dropped:
  A's call returns \<^verbatim>\<open>false\<close> and the active record stays B.

  The code does not do that. In the loaded session, \<^verbatim>\<open>repositionById(1)\<close> is issued on
  controller 2 and \<^verbatim>\<open>repositionById(2)\<close> on controller 3, which aborts controller 2.
  The fetch of record 2 resolves and is applied. Then the fetch of record 1 resolves:
  its own controller 2 is aborted, but the test reads the shared variable, which holds
  controller 3, so record 1 is committed and the call returns \<^verbatim>\<open>true\<close>. \<^verbatim>\<open>init\<close>
  tests its local controller; \<^verbatim>\<open>repositionById\<close> makes the local one and then does
  not use it.
\<close>

theorem repositionById_applies_superseded_result:
  "(let (ra, w1) = repositionById example_options (VNum 1) loaded_world;
        (rb, w2) = repositionById example_options (VNum 2) w1;
        (b, w3) = repositionById_settled (Inr (Some rec2)) w2;
        (a, w4) = repositionById_settled (Inr (Some rec1)) w3
    in ra = Await (ReqGetRecord (VNum 1) None 2) \<and> rb = Await (ReqGetRecord (VNum 2) None 3)
       \<and> b = Return True \<and> activeRecord (state w3) = Some rec2
       \<and> aborted w3 2 \<and> fetchAbortController w3 = Some 3 \<and> \<not> aborted w3 3
       \<and> a = Return True \<and> activeRecord (state w4) = Some rec1
       \<and> id_of rec1 = VNum 1 \<and> pointer (state w4) = 0)"
  by (simp add: loaded_world_eq model_defs example_defs)

subsection \<open>C2, C3: \<^verbatim>\<open>save\<close> and the lock\<close>

text \<open>
  Claim C2 says that when the adapter call made by \<^verbatim>\<open>save\<close> throws, \<^verbatim>\<open>save\<close>
  releases the lock, hands the adapter's error to the caller and leaves the rest of the
  state as it was.

  In the code the \<^verbatim>\<open>finally\<close> block commits \<^verbatim>\<open>unlock\<close>, and \<^verbatim>\<open>unlock\<close> throws
  exactly when the session is locked. In the editing session \<^verbatim>\<open>save\<close> locks and awaits
  \<^verbatim>\<open>adapter.update\<close>; when that rejects with an error, the error the caller gets is
  "Datasource is not locked." and the session stays locked. This is so on every session
  and for every answer of the adapter (\<open>save_suspended_locked\<close>,
  \<open>save_settled_while_locked\<close>).
\<close>

theorem save_adapter_failure_leaves_lock_held:
  "\<not> locked (state editing_world) \<and> updateMode (state editing_world) = Update
   \<and> fst (save example_options editing_world)
       = Await (ReqUpdate [(''id'', VNum 1), (''name'', VStr ''x'')] rec1)
   \<and> save_settled example_options (Inl (AdapterError ''boom'')) saving_world
       = (Throw NotLockedError, saving_world)
   \<and> locked (state saving_world)"
  by (simp add: save_editing_world) (simp add: saving_world_eq editing_world_eq model_defs)

text \<open>
  Claim C3 says that when the adapter call succeeds, \<^verbatim>\<open>save\<close> releases the lock,
  commits the returned record as active and original record, runs \<^verbatim>\<open>init\<close> again and
  completes without error.

  In the code the same \<^verbatim>\<open>unlock\<close> commit throws on this path too: \<^verbatim>\<open>save\<close> fails with
  "Datasource is not locked.", the session stays locked, the returned record is not
  committed (the original record is still the old one, the mode still Update) and no
  \<^verbatim>\<open>getFirst\<close> call is issued.
\<close>

theorem save_adapter_success_throws_not_locked:
  "save_settled example_options (Inr (Some [(''id'', VNum 1), (''name'', VStr ''x'')])) saving_world
       = (Throw NotLockedError, saving_world)
   \<and> locked (state saving_world)
   \<and> originalRecord (state saving_world) = Some rec1
   \<and> originalRecord (state saving_world) \<noteq> Some [(''id'', VNum 1), (''name'', VStr ''x'')]
   \<and> updateMode (state saving_world) = Update
   \<and> calls saving_world
       = [ReqGetFirst None (Some 50) 0, ReqGetRecord (VNum 1) None 1,
          ReqUpdate [(''id'', VNum 1), (''name'', VStr ''x'')] rec1]"
  by (simp add: saving_world_eq model_defs example_defs)

subsection \<open>C4: the pointer invariant\<close>




subsection \<open>C5: mutations under the lock\<close>

text \<open>
  Claim C5 says that while the session is locked every state-mutating operation other
  than the release fails with the locked error and changes nothing; no commit can change
  \<^verbatim>\<open>records\<close> while the lock is held.

  \<^verbatim>\<open>setCollection\<close> is the one mutation without the test. In the editing session
  \<^verbatim>\<open>init()\<close> is called and its batch arrives; then \<^verbatim>\<open>save()\<close> locks the session; then
  the record fetch of \<^verbatim>\<open>init\<close> resolves. \<^verbatim>\<open>init\<close> commits the new collection, and only
  the next commit, \<^verbatim>\<open>setActiveRecord\<close>, throws the locked error: the action fails, and
  \<^verbatim>\<open>records\<close> has changed under the lock.
\<close>

theorem setCollection_commits_while_locked:
  "(let (r1, w1) = init example_options editing_world;
        (r2, w2) = init_getFirst_settled example_options 2 (Inr [rec2]) w1;
        (r3, w3) = save example_options w2;
        (r4, w4) = init_getRecord_settled 3 [rec2] (Inr (Some rec2)) w3
    in r1 = Await (ReqGetFirst None (Some 50) 2)
       \<and> r2 = Await (ReqGetRecord (VNum 2) None 3)
       \<and> r3 = Await (ReqUpdate [(''id'', VNum 1), (''name'', VStr ''x'')] rec1)
       \<and> locked (state w3) \<and> records (state w3) = [rec1, rec2]
       \<and> r4 = Throw LockedError
       \<and> locked (state w4) \<and> records (state w4) = [rec2]
       \<and> commit (setCollection []) w3 = (Return (), w3\<lparr>state := (state w3)\<lparr>records := []\<rparr>\<rparr>))"
  by (simp add: editing_world_eq model_defs example_defs)

subsection \<open>C6: \<^verbatim>\<open>lock\<close> and \<^verbatim>\<open>unlock\<close>\<close>

text \<open>
  Claim C6 says that \<^verbatim>\<open>unlock()\<close> on an unlocked session throws the not-locked error,
  that \<^verbatim>\<open>unlock()\<close> on a locked session clears the flag without error, and that
  \<^verbatim>\<open>lock()\<close> fails on a locked session.

  The test in \<^verbatim>\<open>unlock\<close> is the wrong way round: it throws "Datasource is not locked."
  when the session is locked. On the fresh, unlocked session \<^verbatim>\<open>unlock\<close> returns without
  error; on the locked session it throws and the flag stays set. \<^verbatim>\<open>lock\<close> does fail
  on the locked session.
\<close>

theorem unlock_guard_inverted:
  "\<not> locked (state fresh_world)
   \<and> unlock (state fresh_world) = (Return (), state fresh_world)
   \<and> locked (state saving_world)
   \<and> unlock (state saving_world) = (Throw NotLockedError, state saving_world)
   \<and> lock (state saving_world) = (Throw LockedError, state saving_world)"
  by (simp add: saving_world_eq fresh_state_eq lock_def unlock_def)

subsection \<open>C7: \<^verbatim>\<open>add\<close>\<close>

text \<open>
  Claim C7 says that \<^verbatim>\<open>add()\<close> in Browse mode, unlocked, with an active record, sets
  the mode to Add, makes the active record a record with the same fields all cleared to
  \<^verbatim>\<open>null\<close>, keeps the original record, and does not alter the stored pointer.

  The last part fails: \<^verbatim>\<open>add\<close> commits the cleared record through
  \<^verbatim>\<open>setActiveRecord\<close>, which always recomputes the pointer. In the loaded session the
  pointer is 0 before \<^verbatim>\<open>add()\<close> and \<open>-1\<close> after it.
\<close>

theorem add_moves_pointer_counterexample:
  "\<not> locked (state loaded_world) \<and> updateMode (state loaded_world) = Browse
   \<and> activeRecord (state loaded_world) = Some rec1
   \<and> fst (add loaded_world) = Return ()
   \<and> pointer (state loaded_world) = 0
   \<and> pointer (state (snd (add loaded_world))) = - 1"
  by (simp add: loaded_world_eq model_defs example_defs)

text \<open>
  Claim C7 as amended. In Browse mode, unlocked, with an active record \<open>a\<close>, \<^verbatim>\<open>add()\<close>
  returns, sets the mode to Add, and makes the active record a record \<open>r\<close> with the
  field set of \<open>a\<close> and every value \<^verbatim>\<open>null\<close> (field for field in the order of \<open>a\<close>
  when the field names of \<open>a\<close> are distinct, as they are in an object); the original
  record and the loaded records are unchanged; and the pointer is set to
  \<^verbatim>\<open>records.findIndex(x => x.id === r.id)\<close>, which is \<open>-1\<close> when no loaded record
  has a \<^verbatim>\<open>null\<close> or missing id.
\<close>

theorem add_clears_fields_recomputes_pointer:
  assumes "\<not> locked (state w)" and "updateMode (state w) = Browse"
    and "activeRecord (state w) = Some a"
  shows "\<exists>r w'. add w = (Return (), w')
     \<and> updateMode (state w') = Add
     \<and> activeRecord (state w') = Some r
     \<and> set (keys r) = set (keys a)
     \<and> (\<forall>k\<in>set (keys r). obj_get r k = VNull)
     \<and> (distinct (keys a) \<longrightarrow> r = map (\<lambda>k. (k, VNull)) (keys a))
     \<and> originalRecord (state w') = originalRecord (state w)
     \<and> records (state w') = records (state w)
     \<and> pointer (state w') = findIndex (\<lambda>x. id_of x = id_of r) (records (state w))
     \<and> ((\<forall>x\<in>set (records (state w)). id_of x \<noteq> VNull \<and> id_of x \<noteq> VUndefined)
          \<longrightarrow> pointer (state w') = - 1)"
proof -
  define r where "r = fold (\<lambda>key r. obj_set r key VNull) (keys a) []"
  define w' where "w' = w\<lparr>state := (state w)\<lparr>updateMode := Add, activeRecord := Some r,
            pointer := findIndex (\<lambda>x. id_of x = id_of r) (records (state w))\<rparr>\<rparr>"
  have run: "add w = (Return (), w')"
    using add_result [OF assms(1,2)] assms(3) by (simp add: r_def w'_def Let_def)
  have ks: "set (keys r) = set (keys a)"
    using keys_fold_clear [of "keys a" "[]"] by (simp add: r_def keys_def)
  have vs: "snd ` set r \<subseteq> {VNull}"
    unfolding r_def by (rule values_fold_clear) simp
  have get: "obj_get r k = (if k \<in> set (keys r) then VNull else VUndefined)" for k
    by (rule obj_get_cleared [OF vs])
  have dist: "distinct (keys a) \<longrightarrow> r = map (\<lambda>k. (k, VNull)) (keys a)"
    using fold_clear_distinct [of "[]" "keys a"] by (simp add: r_def keys_def)
  have ptr: "(\<forall>x\<in>set (records (state w)). id_of x \<noteq> VNull \<and> id_of x \<noteq> VUndefined)
          \<longrightarrow> pointer (state w') = - 1"
  proof
    assume ids: "\<forall>x\<in>set (records (state w)). id_of x \<noteq> VNull \<and> id_of x \<noteq> VUndefined"
    have "id_of r = VNull \<or> id_of r = VUndefined" by (simp add: id_of_def get)
    with ids have "\<forall>x\<in>set (records (state w)). \<not> id_of x = id_of r" by auto
    then have "findIndex (\<lambda>x. id_of x = id_of r) (records (state w)) = - 1"
      by (simp add: findIndex_none)
    then show "pointer (state w') = - 1" by (simp add: w'_def)
  qed
  from run ks get dist ptr show ?thesis
    by (intro exI [of _ r] exI [of _ w']) (simp add: w'_def)
qed

theorem add_clears_fields_recomputes_pointer_witness:
  "\<exists>r w'. add loaded_world = (Return (), w')
     \<and> updateMode (state w') = Add
     \<and> activeRecord (state w') = Some r
     \<and> r = [(''id'', VNull), (''name'', VNull)]
     \<and> originalRecord (state w') = Some rec1
     \<and> pointer (state w') = - 1"
proof -
  have h1: "\<not> locked (state loaded_world)" by (simp add: loaded_world_eq)
  have h2: "updateMode (state loaded_world) = Browse" by (simp add: loaded_world_eq)
  have h3: "activeRecord (state loaded_world) = Some rec1" by (simp add: loaded_world_eq)
  have h4: "distinct (keys rec1)" by (simp add: rec1_def keys_def)
  have h5: "\<forall>x\<in>set (records (state loaded_world)). id_of x \<noteq> VNull \<and> id_of x \<noteq> VUndefined"
    by (simp add: loaded_world_eq rec1_def rec2_def id_of_def obj_get_def)
  have h6: "originalRecord (state loaded_world) = Some rec1" by (simp add: loaded_world_eq)
  have h7: "map (\<lambda>k. (k, VNull)) (keys rec1) = [(''id'', VNull), (''name'', VNull)]"
    by (simp add: rec1_def keys_def)
  from add_clears_fields_recomputes_pointer [OF h1 h2 h3] h4 h5 h6 h7 show ?thesis by metis
qed

subsection \<open>C8: \<^verbatim>\<open>edit\<close> without an original record\<close>

text \<open>
  Claim C8 says that in Browse mode, unlocked, \<^verbatim>\<open>edit()\<close> fails and keeps the mode when
  there is no original record, and otherwise sets the mode to Update and leaves active
  record and pointer alone.

  The second half holds (\<open>edit_result\<close>). The first does not: the code builds the error
  and does not throw it. On the fresh session, which has no original record, \<^verbatim>\<open>edit()\<close>
  returns and the mode is Update.
\<close>

theorem edit_without_original_enters_update:
  "\<not> locked (state fresh_world) \<and> updateMode (state fresh_world) = Browse
   \<and> originalRecord (state fresh_world) = None
   \<and> edit fresh_world
       = (Return (), fresh_world\<lparr>state := (state fresh_world)\<lparr>updateMode := Update\<rparr>\<rparr>)"
  by (simp add: fresh_state_eq edit_def commit_def setUpdateMode_def)

subsection \<open>C9: \<^verbatim>\<open>edit\<close>, then \<^verbatim>\<open>cancel\<close>\<close>

text \<open>
  Claim C9: on an unlocked session with an original record, \<^verbatim>\<open>edit()\<close> followed by
  any sequence of field updates and then \<^verbatim>\<open>cancel()\<close> leaves the active record equal to
  the original record as it was before \<^verbatim>\<open>edit()\<close>, sets the mode to Browse, and makes
  no adapter call: \<^verbatim>\<open>cancel\<close> returns, and the list of adapter calls is the one from
  before. The updates may succeed or throw; none of them touches the original record.
  (In Browse mode \<^verbatim>\<open>edit()\<close> itself returns; in another mode it throws and
  \<^verbatim>\<open>cancel()\<close> still restores.) The active record and the original record are never
  the same object in the code, since \<^verbatim>\<open>setActiveRecord\<close> stores a fresh spread as the
  original, so the in-place update of the one cannot reach the other.
\<close>

theorem edit_cancel_restores_original:
  assumes "\<not> locked (state w)" and "originalRecord (state w) = Some orig"
  shows "\<exists>w'. cancel (apply_updates fvs (snd (edit w))) = (Return (), w')
     \<and> activeRecord (state w') = Some orig
     \<and> originalRecord (state w') = Some orig
     \<and> updateMode (state w') = Browse
     \<and> calls w' = calls w
     \<and> (updateMode (state w) = Browse \<longrightarrow> fst (edit w) = Return ())"
proof -
  define w1 where "w1 = snd (edit w)"
  define w2 where "w2 = apply_updates fvs w1"
  have e: "\<not> locked (state w1) \<and> originalRecord (state w1) = Some orig
           \<and> updateMode (state w1) \<noteq> Browse \<and> calls w1 = calls w"
    using assms by (simp add: w1_def edit_result)
  have u: "\<not> locked (state w2)" "originalRecord (state w2) = Some orig"
          "updateMode (state w2) \<noteq> Browse" "calls w2 = calls w"
    using e apply_updates_keeps [of fvs w1] by (simp_all add: w2_def)
  have ok: "updateMode (state w) = Browse \<longrightarrow> fst (edit w) = Return ()"
    using assms(1) by (simp add: edit_result)
  from cancel_result [OF u(1) u(3) u(2)] u(4) ok show ?thesis
    by (simp add: w2_def w1_def)
qed

text \<open>
  On the loaded session: a successful update, an update of an unknown field (which
  throws) and an update of \<^verbatim>\<open>id\<close> change the active record, and \<^verbatim>\<open>cancel\<close> brings
  the first record back.
\<close>

theorem edit_cancel_restores_original_witness:
  "\<exists>w'. cancel (apply_updates [(''name'', VStr ''x''), (''nope'', VNull), (''id'', VNum 7)]
            (snd (edit loaded_world))) = (Return (), w')
     \<and> activeRecord (state w') = Some rec1
     \<and> updateMode (state w') = Browse
     \<and> calls w' = calls loaded_world
     \<and> fst (edit loaded_world) = Return ()
     \<and> activeRecord
          (state (apply_updates [(''name'', VStr ''x''), (''nope'', VNull), (''id'', VNum 7)]
            (snd (edit loaded_world)))) = Some [(''id'', VNum 7), (''name'', VStr ''x'')]"
proof -
  have h1: "\<not> locked (state loaded_world)" by (simp add: loaded_world_eq)
  have h2: "originalRecord (state loaded_world) = Some rec1" by (simp add: loaded_world_eq)
  have h3: "updateMode (state loaded_world) = Browse" by (simp add: loaded_world_eq)
  have h4: "activeRecord
          (state (apply_updates [(''name'', VStr ''x''), (''nope'', VNull), (''id'', VNum 7)]
            (snd (edit loaded_world)))) = Some [(''id'', VNum 7), (''name'', VStr ''x'')]"
    by (simp add: apply_updates_def loaded_world_eq model_defs example_defs)
  from edit_cancel_restores_original
         [OF h1 h2, of "[(''name'', VStr ''x''), (''nope'', VNull), (''id'', VNum 7)]"] h3 h4
  show ?thesis by blast
qed

subsection \<open>C10: committing an absent record\<close>

text \<open>
  Claim C10 says that whenever an absent record is committed as the active record
  (\<^verbatim>\<open>init\<close> with an empty batch or with no first record, \<^verbatim>\<open>repositionById\<close> with no
  record, \<^verbatim>\<open>cancel\<close> with no original record) the \<^verbatim>\<open>setActiveRecord\<close> commit reads
  \<^verbatim>\<open>record.id\<close> of \<^verbatim>\<open>null\<close> and the operation throws a \<^verbatim>\<open>TypeError\<close>, after it has
  set the active record to \<^verbatim>\<open>null\<close> and the original record to the empty object.

  That is not so when no records are loaded. \<^verbatim>\<open>record.id\<close> is read inside the callback
  of \<^verbatim>\<open>findIndex\<close>, which is not called on an empty array. \<^verbatim>\<open>init\<close> with an empty
  batch commits the empty collection first, so it always completes: no active record,
  pointer \<open>-1\<close>, mode Browse. Likewise \<^verbatim>\<open>cancel\<close> after \<^verbatim>\<open>add\<close> on the fresh session,
  which has no original record and no records, returns.
\<close>

theorem absent_record_commit_counterexample:
  "\<not> locked (state batch_pending_world) \<and> \<not> aborted batch_pending_world 0
   \<and> fst (init_getFirst_settled example_options 0 (Inr []) batch_pending_world) = Return ()
   \<and> state (snd (init_getFirst_settled example_options 0 (Inr []) batch_pending_world))
       = \<lparr>activeRecord = None, originalRecord = Some [], records = [],
          updateMode = Browse, pointer = - 1, locked = False\<rparr>
   \<and> \<not> locked (state adding_world) \<and> updateMode (state adding_world) = Add
   \<and> originalRecord (state adding_world) = None
   \<and> fst (cancel adding_world) = Return ()
   \<and> state (snd (cancel adding_world))
       = \<lparr>activeRecord = None, originalRecord = Some [], records = [],
          updateMode = Browse, pointer = - 1, locked = False\<rparr>"
  by (simp add: batch_pending_world_eq adding_world_eq fresh_state_eq model_defs)

text \<open>
  Claim C10 as amended. On an unlocked session, committing an absent record as the
  active record sets the active record to \<^verbatim>\<open>null\<close> and the original record to the empty
  object, and then
  \<^item> throws a \<^verbatim>\<open>TypeError\<close> when \<^verbatim>\<open>records\<close> is not empty, leaving these two writes
    behind and the pointer as it was;
  \<^item> sets the pointer to \<open>-1\<close> and returns when \<^verbatim>\<open>records\<close> is empty.

  So \<^verbatim>\<open>init\<close> with an empty batch completes, in Browse mode with no active record and
  pointer \<open>-1\<close>; \<^verbatim>\<open>init\<close> whose fetch of the first record gives no record throws, with
  the new collection committed; \<^verbatim>\<open>repositionById\<close> whose fetch gives no record, and
  \<^verbatim>\<open>cancel\<close> without an original record, throw when records are loaded and complete
  when none are.
\<close>

theorem absent_record_commit_throws_on_loaded_records:
  "(\<not> locked s \<and> records s \<noteq> [] \<longrightarrow>
      setActiveRecord None False s
        = (Throw TypeError, s\<lparr>activeRecord := None, originalRecord := Some []\<rparr>))
   \<and> (\<not> locked s \<and> records s = [] \<longrightarrow>
      setActiveRecord None False s
        = (Return (), s\<lparr>activeRecord := None, originalRecord := Some [], pointer := - 1\<rparr>))
   \<and> (\<not> locked (state w) \<and> \<not> aborted w localBatch \<longrightarrow>
        (\<exists>w'. init_getFirst_settled options localBatch (Inr []) w = (Return (), w')
           \<and> state w'
               = (state w)\<lparr>records := [], activeRecord := None, originalRecord := Some [],
                    pointer := - 1, updateMode := Browse\<rparr>))
   \<and> (\<not> locked (state w) \<and> \<not> aborted w localFetch \<and> recs \<noteq> [] \<longrightarrow>
        init_getRecord_settled localFetch recs (Inr None) w
          = (Throw TypeError,
             w\<lparr>state := (state w)
                 \<lparr>records := recs, activeRecord := None, originalRecord := Some []\<rparr>\<rparr>))
   \<and> (\<not> locked (state w) \<and> fetchAbortController w = Some c \<and> \<not> aborted w c
        \<and> records (state w) \<noteq> [] \<longrightarrow>
        repositionById_settled (Inr None) w
          = (Throw TypeError,
             w\<lparr>state := (state w)\<lparr>activeRecord := None, originalRecord := Some []\<rparr>\<rparr>))
   \<and> (\<not> locked (state w) \<and> fetchAbortController w = Some c \<and> \<not> aborted w c
        \<and> records (state w) = [] \<longrightarrow>
        repositionById_settled (Inr None) w
          = (Return True,
             w\<lparr>state := (state w)
                 \<lparr>activeRecord := None, originalRecord := Some [], pointer := - 1\<rparr>\<rparr>))
   \<and> (\<not> locked (state w) \<and> updateMode (state w) \<noteq> Browse \<and> originalRecord (state w) = None
        \<and> records (state w) \<noteq> [] \<longrightarrow>
        cancel w
          = (Throw TypeError,
             w\<lparr>state := (state w)\<lparr>activeRecord := None, originalRecord := Some []\<rparr>\<rparr>))
   \<and> (\<not> locked (state w) \<and> updateMode (state w) \<noteq> Browse \<and> originalRecord (state w) = None
        \<and> records (state w) = [] \<longrightarrow>
        cancel w
          = (Return (),
             w\<lparr>state := (state w)
                 \<lparr>activeRecord := None, originalRecord := Some [], pointer := - 1,
                  updateMode := Browse\<rparr>\<rparr>))"
proof -
  have c1: "\<not> locked s \<and> records s \<noteq> [] \<longrightarrow>
      setActiveRecord None False s
        = (Throw TypeError, s\<lparr>activeRecord := None, originalRecord := Some []\<rparr>)"
    by (simp add: setActiveRecord_eq spread_def)
  have c2: "\<not> locked s \<and> records s = [] \<longrightarrow>
      setActiveRecord None False s
        = (Return (), s\<lparr>activeRecord := None, originalRecord := Some [], pointer := - 1\<rparr>)"
    by (simp add: setActiveRecord_eq spread_def)
  have c3: "\<not> locked (state w) \<and> \<not> aborted w localBatch \<longrightarrow>
        (\<exists>w'. init_getFirst_settled options localBatch (Inr []) w = (Return (), w')
           \<and> state w'
               = (state w)\<lparr>records := [], activeRecord := None, originalRecord := Some [],
                    pointer := - 1, updateMode := Browse\<rparr>)"
    by (simp add: init_getFirst_settled_def init_commits_def newAbortController_def aborted_def
        commit_def setCollection_def setActiveRecord_eq setUpdateMode_def and_then_def
        spread_def Let_def)
  have c4: "\<not> locked (state w) \<and> \<not> aborted w localFetch \<and> recs \<noteq> [] \<longrightarrow>
        init_getRecord_settled localFetch recs (Inr None) w
          = (Throw TypeError,
             w\<lparr>state := (state w)
                 \<lparr>records := recs, activeRecord := None, originalRecord := Some []\<rparr>\<rparr>)"
    by (simp add: init_getRecord_settled_def init_commits_def aborted_def
        commit_def setCollection_def setActiveRecord_eq and_then_def spread_def Let_def)
  have c5: "\<not> locked (state w) \<and> fetchAbortController w = Some c \<and> \<not> aborted w c
        \<and> records (state w) \<noteq> [] \<longrightarrow>
        repositionById_settled (Inr None) w
          = (Throw TypeError,
             w\<lparr>state := (state w)\<lparr>activeRecord := None, originalRecord := Some []\<rparr>\<rparr>)"
    by (simp add: repositionById_settled_def
        commit_def setActiveRecord_eq and_then_def spread_def Let_def)
  have c6: "\<not> locked (state w) \<and> fetchAbortController w = Some c \<and> \<not> aborted w c
        \<and> records (state w) = [] \<longrightarrow>
        repositionById_settled (Inr None) w
          = (Return True,
             w\<lparr>state := (state w)
                 \<lparr>activeRecord := None, originalRecord := Some [], pointer := - 1\<rparr>\<rparr>)"
    by (simp add: repositionById_settled_def
        commit_def setActiveRecord_eq and_then_def spread_def Let_def)
  have c7: "\<not> locked (state w) \<and> updateMode (state w) \<noteq> Browse \<and> originalRecord (state w) = None
        \<and> records (state w) \<noteq> [] \<longrightarrow>
        cancel w
          = (Throw TypeError,
             w\<lparr>state := (state w)\<lparr>activeRecord := None, originalRecord := Some []\<rparr>\<rparr>)"
    by (simp add: cancel_def commit_def setActiveRecord_eq and_then_def spread_def Let_def)
  have c8: "\<not> locked (state w) \<and> updateMode (state w) \<noteq> Browse \<and> originalRecord (state w) = None
        \<and> records (state w) = [] \<longrightarrow>
        cancel w
          = (Return (),
             w\<lparr>state := (state w)
                 \<lparr>activeRecord := None, originalRecord := Some [], pointer := - 1,
                  updateMode := Browse\<rparr>\<rparr>)"
    by (simp add: cancel_def commit_def setActiveRecord_eq setUpdateMode_def and_then_def
        spread_def Let_def)
  show ?thesis by (intro conjI c1 c2 c3 c4 c5 c6 c7 c8)
qed

text \<open>
  The eight cases on the example session. In the \<^verbatim>\<open>repositionById\<close> case with loaded
  records the pointer was 0 and stays 0, with no active record left.
\<close>

theorem absent_record_commit_throws_on_loaded_records_witness:
  "setActiveRecord None False (state loaded_world)
     = (Throw TypeError, (state loaded_world)\<lparr>activeRecord := None, originalRecord := Some []\<rparr>)
   \<and> setActiveRecord None False (state fresh_world)
     = (Return (), (state fresh_world)
          \<lparr>activeRecord := None, originalRecord := Some [], pointer := - 1\<rparr>)
   \<and> (\<exists>w'. init_getFirst_settled example_options 0 (Inr []) batch_pending_world = (Return (), w')
          \<and> state w' = (state batch_pending_world)
               \<lparr>records := [], activeRecord := None, originalRecord := Some [],
                pointer := - 1, updateMode := Browse\<rparr>)
   \<and> init_getRecord_settled 1 [rec1, rec2] (Inr None) record_pending_world
       = (Throw TypeError, record_pending_world\<lparr>state := (state record_pending_world)
            \<lparr>records := [rec1, rec2], activeRecord := None, originalRecord := Some []\<rparr>\<rparr>)
   \<and> repositionById_settled (Inr None) reposition_pending_world
       = (Throw TypeError, reposition_pending_world\<lparr>state := (state reposition_pending_world)
            \<lparr>activeRecord := None, originalRecord := Some []\<rparr>\<rparr>)
   \<and> pointer (state reposition_pending_world) = 0
   \<and> repositionById_settled (Inr None) empty_reposition_pending_world
       = (Return True, empty_reposition_pending_world\<lparr>state := (state empty_reposition_pending_world)
            \<lparr>activeRecord := None, originalRecord := Some [], pointer := - 1\<rparr>\<rparr>)
   \<and> cancel batch_only_editing_world
       = (Throw TypeError, batch_only_editing_world\<lparr>state := (state batch_only_editing_world)
            \<lparr>activeRecord := None, originalRecord := Some []\<rparr>\<rparr>)
   \<and> cancel adding_world
       = (Return (), adding_world\<lparr>state := (state adding_world)
            \<lparr>activeRecord := None, originalRecord := Some [], pointer := - 1,
             updateMode := Browse\<rparr>\<rparr>)"
proof -
  note main = absent_record_commit_throws_on_loaded_records
  have h1: "\<not> locked (state loaded_world) \<and> records (state loaded_world) \<noteq> []"
    by (simp add: loaded_world_eq)
  have h2: "\<not> locked (state fresh_world) \<and> records (state fresh_world) = []"
    by (simp add: fresh_state_eq)
  have h3: "\<not> locked (state batch_pending_world) \<and> \<not> aborted batch_pending_world 0"
    by (simp add: batch_pending_world_eq fresh_state_eq aborted_def)
  have h4: "\<not> locked (state record_pending_world) \<and> \<not> aborted record_pending_world 1
      \<and> [rec1, rec2] \<noteq> []"
    by (simp add: record_pending_world_eq fresh_state_eq aborted_def)
  have h5: "\<not> locked (state reposition_pending_world)
      \<and> fetchAbortController reposition_pending_world = Some 2
      \<and> \<not> aborted reposition_pending_world 2
      \<and> records (state reposition_pending_world) \<noteq> []"
    by (simp add: reposition_pending_world_eq loaded_world_eq aborted_def)
  have h6: "\<not> locked (state empty_reposition_pending_world)
      \<and> fetchAbortController empty_reposition_pending_world = Some 0
      \<and> \<not> aborted empty_reposition_pending_world 0
      \<and> records (state empty_reposition_pending_world) = []"
    by (simp add: empty_reposition_pending_world_eq fresh_state_eq aborted_def)
  have h7: "\<not> locked (state batch_only_editing_world)
      \<and> updateMode (state batch_only_editing_world) \<noteq> Browse
      \<and> originalRecord (state batch_only_editing_world) = None
      \<and> records (state batch_only_editing_world) \<noteq> []"
    by (simp add: batch_only_editing_world_eq batch_only_world_eq)
  have h8: "\<not> locked (state adding_world) \<and> updateMode (state adding_world) \<noteq> Browse
      \<and> originalRecord (state adding_world) = None \<and> records (state adding_world) = []"
    by (simp add: adding_world_eq fresh_state_eq)
  have p: "pointer (state reposition_pending_world) = 0"
    by (simp add: reposition_pending_world_eq loaded_world_eq)
  note t1 = main [where s = "state loaded_world", THEN conjunct1, THEN mp, OF h1]
  note t2 = main [where s = "state fresh_world", THEN conjunct2, THEN conjunct1, THEN mp, OF h2]
  note t3 = main [where w = batch_pending_world and localBatch = 0
      and options = example_options, THEN conjunct2, THEN conjunct2, THEN conjunct1, THEN mp, OF h3]
  note t4 = main [where w = record_pending_world and localFetch = 1
      and recs = "[rec1, rec2]", THEN conjunct2, THEN conjunct2, THEN conjunct2, THEN conjunct1, THEN mp, OF h4]
  note t5 = main [where w = reposition_pending_world and c = 2, THEN conjunct2, THEN conjunct2, THEN conjunct2, THEN conjunct2, THEN conjunct1, THEN mp, OF h5]
  note t6 = main [where w = empty_reposition_pending_world and c = 0, THEN conjunct2, THEN conjunct2, THEN conjunct2, THEN conjunct2, THEN conjunct2, THEN conjunct1, THEN mp, OF h6]
  note t7 = main [where w = batch_only_editing_world, THEN conjunct2, THEN conjunct2, THEN conjunct2, THEN conjunct2, THEN conjunct2, THEN conjunct2, THEN conjunct1, THEN mp, OF h7]
  note t8 = main [where w = adding_world, THEN conjunct2, THEN conjunct2, THEN conjunct2, THEN conjunct2, THEN conjunct2, THEN conjunct2, THEN conjunct2, THEN mp, OF h8]
  show ?thesis by (intro conjI t1 t2 t3 t4 t5 p t6 t7 t8)
qed

end
